theory Spec2Isabelle
  imports Complex_Main "HOL-Library.Word" "HOL-Library.Sublist"
begin

section \<open>LeapMIDIX: the device, its packet buffer and its delivery worker\<close>

text \<open>
  A shallow embedding of \<^verbatim>\<open>src/LeapMIDIX/Device.cpp\<close> and of \<^verbatim>\<open>sendNote\<close> in
  \<^verbatim>\<open>src/LeapMIDIX/main.cpp\<close>. The member variables of \<^verbatim>\<open>LeapMIDIX::Device\<close> are the
  fields of one record. Every call the program makes into the platform (CoreMIDI, pthreads,
  the C library, the standard streams) is appended to a trace, so that what the program hands
  to the driver, what it prints and in which order it does so can be read off the final state.
  What the platform answers (the clock, the status of a driver call, the return value of a
  timed wait) is an input of the model.
\<close>

subsection \<open>Platform types\<close>

type_synonym Byte = "8 word"
type_synonym OSStatus = "32 word"
type_synonym MIDITimeStamp = "64 word"

text \<open>\<^verbatim>\<open>struct timeval\<close> and \<^verbatim>\<open>struct timespec\<close>; both fields are signed integers.\<close>

record timeval =
  tv_sec :: int
  tv_usec :: int

record timespec =
  ts_sec :: int
  ts_nsec :: int

text \<open>
  A \<^verbatim>\<open>MIDIPacket\<close> holds a time stamp, a 16-bit length and the data bytes; the length is
  the length of the byte list here. A \<^verbatim>\<open>MIDIPacketList\<close> holds a 32-bit packet count and
  the packets; the count is the length of the list here.
\<close>

record MIDIPacket =
  timeStamp :: MIDITimeStamp
  pdata :: "Byte list"

type_synonym MIDIPacketList = "MIDIPacket list"

text \<open>
  Modelled from the spec: the typedefs \<^verbatim>\<open>LeapMIDI::midi_control_index\<close> and
  \<^verbatim>\<open>LeapMIDI::midi_control_value\<close> are declared in a header that is not part of the
  sources at hand. The spec gives both as integers with the valid ranges [0, 120) and
  [0, 128), and \<^verbatim>\<open>writeControl\<close> asserts an upper bound only, so they are taken as
  unsigned integers of an unspecified width: natural numbers.
\<close>

type_synonym midi_control_index = nat
type_synonym midi_control_value = nat

text \<open>
  The struct \<^verbatim>\<open>midi_message\<close>, with the three fields \<^verbatim>\<open>addControlMessage\<close> fills and
  \<^verbatim>\<open>writeControlMessages\<close> reads.
\<close>

record midi_message =
  control_index :: midi_control_index
  control_value :: midi_control_value
  timestamp :: timeval

subsection \<open>The trace of platform calls\<close>

datatype message =
  LatencyWarning real
  | BufferOverrun
  | PthreadCreateFailed int
  | UnexpectedWaitRetval int
  | MutexUnlockFailure
  | FailedToAddPacket
  | Fatal string

text \<open>
  \<open>CondTimedWait held ts\<close> is a call of \<^verbatim>\<open>pthread_cond_timedwait\<close> with the absolute
  deadline \<open>ts\<close>; \<open>held\<close> tells whether the calling thread owned the mutex at the call.
  \<open>WorkerUnlock held\<close> is a call of \<^verbatim>\<open>pthread_mutex_unlock\<close> by the worker thread.
  \<open>QueuePop held\<close> is one \<^verbatim>\<open>midiMessageQueue.pop()\<close> of the worker.
\<close>

datatype call =
  MIDIReceived MIDIPacketList
  | MIDIClientCreate
  | MIDISourceCreate
  | MIDIEndpointDispose
  | MIDIDeviceDispose
  | Malloc nat
  | Free
  | PthreadCreate
  | PthreadCancel
  | PthreadJoin
  | MutexDestroy
  | CondDestroy
  | CondTimedWait bool timespec
  | WorkerUnlock bool
  | QueuePop bool
  | ProducerLock
  | QueuePush midi_message
  | ProducerUnlock
  | CondSignal
  | Cerr message
  | Cout string

text \<open>How the process or the worker thread ends when it does not fall through.\<close>

datatype halt = AssertionFailed | Exit1 | NullDereference | ThreadCancelled

subsection \<open>The device\<close>

text \<open>
  The members of \<^verbatim>\<open>Device\<close>. A pointer is \<open>None\<close> when it is \<^verbatim>\<open>NULL\<close>. The packet buffer
  is held by value: \<open>midiPacketList\<close> is the content of the buffer the member points to, and
  \<open>curPacket\<close> is the index of the packet the cursor points to. The remaining fields are
  the state of the platform that the program observes: how often the clock was read, whether
  the worker thread owns \<^verbatim>\<open>messageQueueMutex\<close>, whether a cancellation of the worker is
  pending, and the trace.
\<close>

record Device =
  packetListSize :: nat
  deviceClient :: "unit option"
  deviceEndpoint :: "unit option"
  midiPacketList :: "MIDIPacketList option"
  curPacket :: "nat option"
  midiMessageQueue :: "midi_message list"
  messageQueueThread :: bool
  ticks :: nat
  workerHoldsMutex :: bool
  cancelPending :: bool
  trace :: "call list"

text \<open>
  The answers of the platform: the \<open>n\<close>-th reading of \<^verbatim>\<open>gettimeofday\<close>, the status
  \<^verbatim>\<open>MIDIReceived\<close> returns for its \<open>n\<close>-th call with a given packet list, and the results
  of the three creation calls of \<^verbatim>\<open>init\<close>.
\<close>

record env =
  clock :: "nat \<Rightarrow> timeval"
  midiReceived :: "nat \<Rightarrow> MIDIPacketList \<Rightarrow> OSStatus"
  clientCreate :: OSStatus
  sourceCreate :: OSStatus
  threadCreate :: int

type_synonym 'a result = "(halt \<times> Device) + 'a"

definition emit :: "call \<Rightarrow> Device \<Rightarrow> Device" where
  "emit c d = d\<lparr>trace := trace d @ [c]\<rparr>"

fun receivedOf :: "call \<Rightarrow> MIDIPacketList list" where
  "receivedOf (MIDIReceived pktlist) = [pktlist]"
| "receivedOf _ = []"

fun cerrOf :: "call \<Rightarrow> message list" where
  "cerrOf (Cerr m) = [m]"
| "cerrOf _ = []"

text \<open>The packet lists handed to the driver so far, and the lines written to \<^verbatim>\<open>std::cerr\<close>.\<close>

definition received :: "Device \<Rightarrow> MIDIPacketList list" where
  "received d = concat (map receivedOf (trace d))"

definition cerr :: "Device \<Rightarrow> message list" where
  "cerr d = concat (map cerrOf (trace d))"

definition gettimeofday :: "env \<Rightarrow> Device \<Rightarrow> timeval \<times> Device" where
  "gettimeofday e d = (clock e (ticks d), d\<lparr>ticks := Suc (ticks d)\<rparr>)"

subsection \<open>The CoreMIDI packet list\<close>

text \<open>
  \<^verbatim>\<open>MIDIPacketListInit\<close> and \<^verbatim>\<open>MIDIPacketListAdd\<close> belong to CoreMIDI, not to this
  program. Their model follows the layout of \<^verbatim>\<open>MIDIServices.h\<close>: a list starts with its
  4-byte packet count, and a packet takes 8 bytes of time stamp, 2 bytes of length and its
  data. \<^verbatim>\<open>MIDIPacketListInit\<close> empties the list and returns a pointer to its first packet.
  \<^verbatim>\<open>MIDIPacketListAdd\<close> writes a further packet when it fits into \<open>listSize\<close> bytes and
  returns a pointer to it, and returns \<^verbatim>\<open>NULL\<close> otherwise. \<^verbatim>\<open>Device.cpp\<close> only ever adds
  to a list that was just initialised, so that the way CoreMIDI places a second packet plays
  no role for the device; \<^verbatim>\<open>sendNote\<close> adds two packets with different time stamps to a
  list of its own.
\<close>

definition packetBytes :: "MIDIPacket \<Rightarrow> nat" where
  "packetBytes p = 10 + length (pdata p)"

definition listBytes :: "MIDIPacketList \<Rightarrow> nat" where
  "listBytes pktlist = 4 + sum_list (map packetBytes pktlist)"

definition MIDIPacketListInit :: "MIDIPacketList \<times> nat option" where
  "MIDIPacketListInit = ([], Some 0)"

definition MIDIPacketListAdd ::
  "MIDIPacketList \<Rightarrow> nat \<Rightarrow> MIDITimeStamp \<Rightarrow> Byte list \<Rightarrow> MIDIPacketList \<times> nat option" where
  "MIDIPacketListAdd pktlist listSize time bytes =
     (if listBytes pktlist + 10 + length bytes \<le> listSize
      then (pktlist @ [\<lparr>timeStamp = time, pdata = bytes\<rparr>], Some (length pktlist))
      else (pktlist, None))"

subsection \<open>Construction and initialisation\<close>

text \<open>
  \<^verbatim>\<open>Device::Device\<close>. The constructor does not set \<^verbatim>\<open>messageQueueThread\<close> and
  \<^verbatim>\<open>curPacket\<close>; their indeterminate values are the parameters \<open>thread0\<close> and \<open>cur0\<close>.
\<close>

definition Device_new :: "bool \<Rightarrow> nat option \<Rightarrow> Device" where
  "Device_new thread0 cur0 =
     \<lparr>packetListSize = 512, deviceClient = None, deviceEndpoint = None,
      midiPacketList = None, curPacket = cur0, midiMessageQueue = [],
      messageQueueThread = thread0, ticks = 0, workerHoldsMutex = False,
      cancelPending = False, trace = []\<rparr>"

text \<open>\<^verbatim>\<open>Device::initPacketList\<close>; \<^verbatim>\<open>malloc\<close> is taken to succeed, as the code takes it.\<close>

definition initPacketList :: "Device \<Rightarrow> Device" where
  "initPacketList d =
     (let d1 = (if midiPacketList d \<noteq> None then (emit Free d)\<lparr>midiPacketList := None\<rparr> else d);
          d2 = emit (Malloc (packetListSize d1)) d1
      in d2\<lparr>midiPacketList := Some (fst MIDIPacketListInit),
            curPacket := snd MIDIPacketListInit\<rparr>)"

text \<open>The static function \<^verbatim>\<open>fatal\<close>.\<close>

definition fatal :: "string \<Rightarrow> Device \<Rightarrow> Device result" where
  "fatal msg d = Inl (Exit1, emit (Cerr (Fatal msg)) d)"

text \<open>\<^verbatim>\<open>Device::createDevice\<close>.\<close>

definition createDevice :: "env \<Rightarrow> Device \<Rightarrow> Device result" where
  "createDevice e d =
     (let d1 = emit MIDIClientCreate d;
          d2 = (if clientCreate e = 0 then d1\<lparr>deviceClient := Some ()\<rparr> else d1)
      in if clientCreate e \<noteq> 0 then fatal ''Failed to create MIDI client'' d2
         else
           let d3 = emit MIDISourceCreate d2;
               d4 = (if sourceCreate e = 0 then d3\<lparr>deviceEndpoint := Some ()\<rparr> else d3)
           in if sourceCreate e \<noteq> 0 then fatal ''Failed to create MIDI source'' d4
              else Inr d4)"

text \<open>\<^verbatim>\<open>Device::init\<close>.\<close>

definition init :: "env \<Rightarrow> Device \<Rightarrow> Device result" where
  "init e d =
     (case createDevice e (initPacketList d) of
        Inl x \<Rightarrow> Inl x
      | Inr d1 \<Rightarrow>
          let d2 = emit PthreadCreate d1
          in if threadCreate e \<noteq> 0
             then Inl (Exit1, emit (Cerr (PthreadCreateFailed (threadCreate e))) d2)
             else Inr (d2\<lparr>messageQueueThread := True\<rparr>))"

subsection \<open>The send path\<close>

text \<open>
  \<^verbatim>\<open>Device::send\<close>: hands \<open>pktlist\<close> to \<^verbatim>\<open>MIDIReceived\<close>, re-initialises the member
  buffer and returns the driver's status. The argument is a pointer to constant data that
  is read by the driver call only, so it is passed by value.
\<close>

definition send :: "env \<Rightarrow> MIDIPacketList \<Rightarrow> Device \<Rightarrow> OSStatus \<times> Device" where
  "send e pktlist d =
     (let res = midiReceived e (length (received d)) pktlist;
          d1 = emit (MIDIReceived pktlist) d
      in (res, initPacketList d1))"

text \<open>
  \<^verbatim>\<open>Device::writeControl\<close>. A failing \<^verbatim>\<open>assert\<close> aborts the process. Adding to a list
  behind a \<^verbatim>\<open>NULL\<close> pointer has no defined outcome; the model stops there.
\<close>

definition writeControl ::
  "env \<Rightarrow> midi_control_index \<Rightarrow> midi_control_value \<Rightarrow> Device \<Rightarrow> Device result" where
  "writeControl e control val d =
     (if \<not> control < 120 then Inl (AssertionFailed, d)
      else if \<not> val \<le> 127 then Inl (AssertionFailed, d)
      else
        let channelBase = (0xB0 :: Byte);
            channel = (0 :: Byte);
            midiChannel = channelBase + channel;
            controlBase = (0x00 :: Byte);
            midiControl = controlBase + of_nat control;
            packetOut = [midiChannel, midiControl, of_nat val]
        in case (midiPacketList d, curPacket d) of
             (Some pktlist, Some cur) \<Rightarrow>
               let (pktlist', cur') = MIDIPacketListAdd pktlist (packetListSize d) 0 packetOut;
                   d1 = d\<lparr>midiPacketList := Some pktlist', curPacket := cur'\<rparr>
               in if cur' = None then Inl (Exit1, emit (Cerr BufferOverrun) d1)
                  else Inr (snd (send e pktlist' d1))
           | _ \<Rightarrow> Inl (NullDereference, d))"

text \<open>
  The elapsed time in milliseconds that \<^verbatim>\<open>writeControlMessages\<close> computes in a
  \<^verbatim>\<open>double\<close>. Both differences are integer subtractions; the products and quotients are
  taken in the reals. For readings with microseconds in [0, 1000000) the comparison of the
  \<^verbatim>\<open>double\<close> with 2 has the outcome of the exact comparison: the elapsed time is a whole
  number of microseconds, so it is either at most 2 or at least 2.001, and the rounding of
  the two floating-point operations is smaller than that gap by many orders of magnitude.
\<close>

definition elapsedTime :: "timeval \<Rightarrow> timeval \<Rightarrow> real" where
  "elapsedTime tv stamp =
     real_of_int (tv_sec tv - tv_sec stamp) * 1000.0
       + real_of_int (tv_usec tv - tv_usec stamp) / 1000.0"

text \<open>
  \<^verbatim>\<open>Device::writeControlMessages\<close>: the loop over the private batch, whose front is the
  head of the list.
\<close>

fun writeControlMessages :: "env \<Rightarrow> midi_message list \<Rightarrow> Device \<Rightarrow> Device result" where
  "writeControlMessages e [] d = Inr d"
| "writeControlMessages e (msg # messages) d =
     (let (tv, d1) = gettimeofday e d
      in if elapsedTime tv (timestamp msg) > 2
         then writeControlMessages e messages
                (emit (Cerr (LatencyWarning (elapsedTime tv (timestamp msg)))) d1)
         else
           case writeControl e (control_index msg) (control_value msg) d1 of
             Inl x \<Rightarrow> Inl x
           | Inr d2 \<Rightarrow> writeControlMessages e messages d2)"

subsection \<open>The producer\<close>

text \<open>\<^verbatim>\<open>Device::addControlMessage\<close>, run by a producer thread.\<close>

definition addControlMessage ::
  "env \<Rightarrow> midi_control_index \<Rightarrow> midi_control_value \<Rightarrow> Device \<Rightarrow> Device" where
  "addControlMessage e controlIndex controlValue d =
     (let d1 = emit ProducerLock d;
          (tv, d2) = gettimeofday e d1;
          msg = \<lparr>control_index = controlIndex, control_value = controlValue, timestamp = tv\<rparr>;
          d3 = (emit (QueuePush msg) d2)\<lparr>midiMessageQueue := midiMessageQueue d2 @ [msg]\<rparr>;
          d4 = emit ProducerUnlock d3
      in emit CondSignal d4)"

subsection \<open>The worker\<close>

text \<open>The value of \<^verbatim>\<open>ETIMEDOUT\<close> and of \<^verbatim>\<open>EPERM\<close> in the \<^verbatim>\<open>errno.h\<close> of the platform.\<close>

definition ETIMEDOUT :: int where
  "ETIMEDOUT = 60"

definition EPERM :: int where
  "EPERM = 1"

text \<open>
  The deadline the worker computes before it waits: \<^verbatim>\<open>ts.tv_sec = tv.tv_sec + 2\<close> and
  \<^verbatim>\<open>ts.tv_nsec = 0\<close>.
\<close>

definition waitDeadline :: "timeval \<Rightarrow> timespec" where
  "waitDeadline tv = \<lparr>ts_sec = tv_sec tv + 2, ts_nsec = 0\<rparr>"

text \<open>
  \<^verbatim>\<open>pthread_cond_timedwait\<close> as the worker sees it. The call is recorded together with
  whether the worker owns the mutex at that moment. While the worker is blocked the mutex is
  free, and the producers run: \<open>arrivals\<close> are the calls of \<^verbatim>\<open>addControlMessage\<close> that
  take place during the wait. The value \<open>res\<close> the call returns is an input; on a return
  of 0 or of \<^verbatim>\<open>ETIMEDOUT\<close> the caller owns the mutex, as POSIX has it for a wait that
  was entered with the mutex. For a wait entered without the mutex POSIX defines nothing;
  the model lets the platform hand the mutex over then too, and the recorded call tells the
  two cases apart.
\<close>

definition pthread_cond_timedwait ::
  "env \<Rightarrow> timespec \<Rightarrow> (midi_control_index \<times> midi_control_value) list \<Rightarrow> int \<Rightarrow> Device \<Rightarrow> Device" where
  "pthread_cond_timedwait e ts arrivals res d =
     (let d1 = (emit (CondTimedWait (workerHoldsMutex d) ts) d)\<lparr>workerHoldsMutex := False\<rparr>;
          d2 = fold (\<lambda>(i, v). addControlMessage e i v) arrivals d1
      in d2\<lparr>workerHoldsMutex := (res = 0 \<or> res = ETIMEDOUT)\<rparr>)"

text \<open>\<^verbatim>\<open>pthread_mutex_unlock\<close> called by the worker: an error when it does not own the mutex.\<close>

definition pthread_mutex_unlock :: "Device \<Rightarrow> int \<times> Device" where
  "pthread_mutex_unlock d =
     (if workerHoldsMutex d then 0 else EPERM,
      (emit (WorkerUnlock (workerHoldsMutex d)) d)\<lparr>workerHoldsMutex := False\<rparr>)"

text \<open>
  The inner loop of \<^verbatim>\<open>messageSendingThreadEntry\<close> that moves the shared queue into the
  thread-local \<^verbatim>\<open>queueCopy\<close>, front first.
\<close>

function copyQueue :: "midi_message list \<Rightarrow> Device \<Rightarrow> midi_message list \<times> Device" where
  "copyQueue queueCopy d =
     (case midiMessageQueue d of
        [] \<Rightarrow> (queueCopy, d)
      | msg # rest \<Rightarrow>
          copyQueue (queueCopy @ [msg])
            ((emit (QueuePop (workerHoldsMutex d)) d)\<lparr>midiMessageQueue := rest\<rparr>))"
  by pat_completeness auto
termination
  by (relation "measure (\<lambda>(queueCopy, d). length (midiMessageQueue d))") (auto simp: emit_def)

declare copyQueue.simps [simp del]

text \<open>
  One pass through the body of \<^verbatim>\<open>while (1)\<close> in \<^verbatim>\<open>messageSendingThreadEntry\<close>.
  \<^verbatim>\<open>pthread_testcancel\<close> ends the thread when a cancellation is pending.
\<close>

definition loopBody ::
  "env \<Rightarrow> (midi_control_index \<times> midi_control_value) list \<Rightarrow> int \<Rightarrow> Device \<Rightarrow> Device result" where
  "loopBody e arrivals res d =
     (if cancelPending d then Inl (ThreadCancelled, d)
      else
        let (tv, d1) = gettimeofday e d;
            ts = waitDeadline tv;
            d2 = pthread_cond_timedwait e ts arrivals res d1
        in if res = ETIMEDOUT then Inr (emit (Cout ''ETIMEDOUT'') d2)
           else if res \<noteq> 0 then Inl (Exit1, emit (Cerr (UnexpectedWaitRetval res)) d2)
           else if midiMessageQueue d2 = [] then Inr (snd (pthread_mutex_unlock d2))
           else
             let (queueCopy, d3) = copyQueue [] d2;
                 (r, d4) = pthread_mutex_unlock d3
             in if r \<noteq> 0 then Inl (Exit1, emit (Cerr MutexUnlockFailure) d4)
                else writeControlMessages e queueCopy d4)"

text \<open>
  \<^verbatim>\<open>Device::messageSendingThreadEntry\<close>. The loop has no exit of its own. Each pass blocks
  in the timed wait, so a run of the thread is driven by what happens during its waits: the
  schedule lists, pass by pass, the producer calls during the wait and the value the wait
  returns. A finite schedule gives the state the thread has reached when it enters the
  wait after the last listed pass; \<open>Inl\<close> tells that the thread or the process has ended.
\<close>

fun workerLoop ::
  "env \<Rightarrow> ((midi_control_index \<times> midi_control_value) list \<times> int) list \<Rightarrow> Device \<Rightarrow> Device result" where
  "workerLoop e [] d = Inr d"
| "workerLoop e ((arrivals, res) # schedule) d =
     (case loopBody e arrivals res d of
        Inl x \<Rightarrow> Inl x
      | Inr d' \<Rightarrow> workerLoop e schedule d')"

definition messageSendingThreadEntry ::
  "env \<Rightarrow> ((midi_control_index \<times> midi_control_value) list \<times> int) list \<Rightarrow> Device \<Rightarrow> Device result" where
  "messageSendingThreadEntry e schedule d =
     workerLoop e schedule (emit (Cout ''messageSendingThreadEntry'') d)"

subsection \<open>Shutdown\<close>

text \<open>\<^verbatim>\<open>Device::~Device\<close>, statement by statement.\<close>

definition Device_delete :: "Device \<Rightarrow> Device" where
  "Device_delete d =
     (let d1 = (if deviceEndpoint d \<noteq> None then emit MIDIEndpointDispose d else d);
          d2 = (if deviceClient d1 \<noteq> None then emit MIDIDeviceDispose d1 else d1);
          d3 = (if midiPacketList d2 \<noteq> None then emit Free d2 else d2);
          d4 = (if messageQueueThread d3
                then (emit PthreadCancel d3)\<lparr>cancelPending := True\<rparr> else d3);
          d5 = emit MutexDestroy d4;
          d6 = emit CondDestroy d5
      in emit (Cout ''closed down device'') d6)"

subsection \<open>The note sender of the entry thread\<close>

text \<open>
  \<^verbatim>\<open>sendNote\<close> of \<^verbatim>\<open>main.cpp\<close>: it fills a packet list of its own, 32 bytes on its
  stack, and hands it to \<^verbatim>\<open>Device::send\<close>. The value of \<^verbatim>\<open>rand()\<close> and the reading of
  \<^verbatim>\<open>mach_absolute_time()\<close> are inputs.
\<close>

definition sendNote :: "env \<Rightarrow> nat \<Rightarrow> MIDITimeStamp \<Rightarrow> Device \<Rightarrow> Device" where
  "sendNote e rnd now d =
     (let kMySize = 32;
          note = (of_nat (rnd mod 40 + 25) :: Byte);
          noteOn = [0x90, note, 64];
          noteOff = [0x90, note, 0];
          (packetList0, cur0) = MIDIPacketListInit;
          (packetList1, cur1) = MIDIPacketListAdd packetList0 kMySize 0 noteOn;
          (packetList2, cur2) = MIDIPacketListAdd packetList1 kMySize (now + 1000) noteOff
      in if cur2 = None then emit (Cerr FailedToAddPacket) d
         else snd (send e packetList2 d))"

subsection \<open>Notions used to state the properties\<close>

text \<open>
  The state in which a run ended: the state at the abort, the exit or the cancellation, or
  the state returned.
\<close>

fun finalState :: "Device result \<Rightarrow> Device" where
  "finalState (Inl (h, d)) = d"
| "finalState (Inr d) = d"

text \<open>
  The member buffer is ready for an encode: it is allocated and empty, the cursor points to
  its first packet, and its capacity holds one packet of three bytes (4 + 10 + 3 bytes).
  This is the state \<^verbatim>\<open>initPacketList\<close> leaves behind for the capacity 512 of the
  constructor.
\<close>

definition bufferReady :: "Device \<Rightarrow> bool" where
  "bufferReady d = (midiPacketList d = Some [] \<and> curPacket d = Some 0 \<and> 17 \<le> packetListSize d)"

text \<open>
  The packet list \<^verbatim>\<open>writeControl\<close> builds for an update: one packet with the time
  stamp 0 and the three bytes of a control change on channel 0.
\<close>

definition controlChange :: "midi_message \<Rightarrow> MIDIPacketList" where
  "controlChange m =
     [\<lparr>timeStamp = 0, pdata = [0xB0, 0x00 + of_nat (control_index m), of_nat (control_value m)]\<rparr>]"

text \<open>The range \<^verbatim>\<open>writeControl\<close> asserts.\<close>

definition inRange :: "midi_message \<Rightarrow> bool" where
  "inRange m = (control_index m < 120 \<and> control_value m < 128)"

text \<open>
  An update is stale at a reading of the clock when the elapsed time since its time stamp
  exceeds 2 ms. The pair holds the number of the reading and the update.
\<close>

definition stale :: "env \<Rightarrow> nat \<times> midi_message \<Rightarrow> bool" where
  "stale e km = (elapsedTime (clock e (fst km)) (timestamp (snd km)) > 2)"

text \<open>The updates the producers have pushed so far, in the order of their pushes.\<close>

fun pushOf :: "call \<Rightarrow> midi_message list" where
  "pushOf (QueuePush m) = [m]"
| "pushOf _ = []"

definition enqueued :: "Device \<Rightarrow> midi_message list" where
  "enqueued d = concat (map pushOf (trace d))"

text \<open>
  For each \<^verbatim>\<open>pop()\<close> of the shared queue so far, whether the worker owned the mutex.
\<close>

fun popOf :: "call \<Rightarrow> bool list" where
  "popOf (QueuePop held) = [held]"
| "popOf _ = []"

definition pops :: "Device \<Rightarrow> bool list" where
  "pops d = concat (map popOf (trace d))"

text \<open>
  The invariant of the pipeline: the buffer is ready, the queue holds the most recent pushes,
  and what the driver has received is, update by update, a subsequence of the pushes that
  have left the queue.
\<close>

definition tracked :: "Device \<Rightarrow> bool" where
  "tracked d = (bufferReady d \<and>
     (\<exists>old. enqueued d = old @ midiMessageQueue d \<and> subseq (received d) (map controlChange old)))"

text \<open>The time in nanoseconds from a reading of the clock to an absolute deadline.\<close>

definition nanosUntil :: "timeval \<Rightarrow> timespec \<Rightarrow> int" where
  "nanosUntil tv ts = (ts_sec ts - tv_sec tv) * 1000000000 + ts_nsec ts - tv_usec tv * 1000"

text \<open>
  The state in which an idle pass of the worker ends whose wait times out: the clock was read
  once, the wait was called, the worker owns the mutex, and \<^verbatim>\<open>ETIMEDOUT\<close> was printed.
\<close>

definition timedOut :: "env \<Rightarrow> Device \<Rightarrow> Device" where
  "timedOut e d =
     emit (Cout ''ETIMEDOUT'')
       ((emit (CondTimedWait (workerHoldsMutex d) (waitDeadline (clock e (ticks d))))
          (d\<lparr>ticks := Suc (ticks d)\<rparr>))\<lparr>workerHoldsMutex := True\<rparr>)"

subsection \<open>Example data\<close>

text \<open>
  A platform on which every call succeeds and whose clock starts at 1.002 s and advances by
  a microsecond per reading, the device \<^verbatim>\<open>init\<close> yields on it, and a batch of four
  updates that are 2 ms, 2.001 ms, 2.499 ms and 1.003 ms old when the worker examines them.
\<close>

definition env0 :: env where
  "env0 = \<lparr>clock = (\<lambda>n. \<lparr>tv_sec = 1, tv_usec = 2000 + int n\<rparr>), midiReceived = (\<lambda>n pktlist. 0),
           clientCreate = 0, sourceCreate = 0, threadCreate = 0\<rparr>"

definition device0 :: Device where
  "device0 = finalState (init env0 (Device_new False None))"

definition batch0 :: "midi_message list" where
  "batch0 =
     [\<lparr>control_index = 5, control_value = 100, timestamp = \<lparr>tv_sec = 1, tv_usec = 0\<rparr>\<rparr>,
      \<lparr>control_index = 6, control_value = 3, timestamp = \<lparr>tv_sec = 1, tv_usec = 0\<rparr>\<rparr>,
      \<lparr>control_index = 7, control_value = 1, timestamp = \<lparr>tv_sec = 0, tv_usec = 999503\<rparr>\<rparr>,
      \<lparr>control_index = 5, control_value = 64, timestamp = \<lparr>tv_sec = 1, tv_usec = 1000\<rparr>\<rparr>]"

text \<open>
  The end-to-end scenario: the update (5, 100) and then the update (5, 64), both pushed a
  few microseconds before the worker examines them.
\<close>

definition scenario :: "midi_message list" where
  "scenario =
     [\<lparr>control_index = 5, control_value = 100, timestamp = \<lparr>tv_sec = 1, tv_usec = 1990\<rparr>\<rparr>,
      \<lparr>control_index = 5, control_value = 64, timestamp = \<lparr>tv_sec = 1, tv_usec = 1995\<rparr>\<rparr>]"

text \<open>
  A platform whose clock jumps by 8 ms at its sixth reading, and a run of the worker: a wait
  that times out, a wait during which two updates arrive, and a wait during which one
  update arrives.
\<close>

definition env1 :: env where
  "env1 = env0\<lparr>clock := (\<lambda>n. \<lparr>tv_sec = 1, tv_usec = (if n < 5 then 2000 else 10000) + int n\<rparr>)\<rparr>"

definition schedule0 :: "((midi_control_index \<times> midi_control_value) list \<times> int) list" where
  "schedule0 = [([], ETIMEDOUT), ([(5, 100), (6, 3)], 0), ([(5, 64)], 0)]"

text \<open>
  The device after two calls of \<^verbatim>\<open>addControlMessage\<close> that took place before the worker
  has entered its first wait.
\<close>

definition queued0 :: Device where
  "queued0 = addControlMessage env1 6 3 (addControlMessage env1 5 100 device0)"

text \<open>A platform whose driver answers every send with the status 1, and one whose clock reads 100.5 s.\<close>

definition env3 :: env where
  "env3 = env0\<lparr>midiReceived := (\<lambda>n pktlist. 1)\<rparr>"

definition env2 :: env where
  "env2 = env0\<lparr>clock := (\<lambda>n. \<lparr>tv_sec = 100, tv_usec = 500000\<rparr>)\<rparr>"

section \<open>Auxiliary facts\<close>

subsection \<open>The trace and the buffer\<close>

lemma received_emit: "received (emit c d) = received d @ receivedOf c"
  by (simp add: received_def emit_def)

lemma cerr_emit: "cerr (emit c d) = cerr d @ cerrOf c"
  by (simp add: cerr_def emit_def)

lemma emit_fields [simp]:
  "packetListSize (emit c d) = packetListSize d"
  "midiPacketList (emit c d) = midiPacketList d"
  "curPacket (emit c d) = curPacket d"
  "midiMessageQueue (emit c d) = midiMessageQueue d"
  "ticks (emit c d) = ticks d"
  "workerHoldsMutex (emit c d) = workerHoldsMutex d"
  "cancelPending (emit c d) = cancelPending d"
  "trace (emit c d) = trace d @ [c]"
  by (simp_all add: emit_def)

lemma received_upd [simp]:
  "received (d\<lparr>midiPacketList := p\<rparr>) = received d"
  "received (d\<lparr>curPacket := q\<rparr>) = received d"
  "received (d\<lparr>ticks := n\<rparr>) = received d"
  "received (d\<lparr>midiMessageQueue := ms\<rparr>) = received d"
  "received (d\<lparr>workerHoldsMutex := b\<rparr>) = received d"
  by (simp_all add: received_def)

lemma cerr_upd [simp]:
  "cerr (d\<lparr>midiPacketList := p\<rparr>) = cerr d"
  "cerr (d\<lparr>curPacket := q\<rparr>) = cerr d"
  "cerr (d\<lparr>ticks := n\<rparr>) = cerr d"
  "cerr (d\<lparr>midiMessageQueue := ms\<rparr>) = cerr d"
  "cerr (d\<lparr>workerHoldsMutex := b\<rparr>) = cerr d"
  by (simp_all add: cerr_def)

lemma initPacketList_fields [simp]:
  "midiPacketList (initPacketList d) = Some []"
  "curPacket (initPacketList d) = Some 0"
  "packetListSize (initPacketList d) = packetListSize d"
  "midiMessageQueue (initPacketList d) = midiMessageQueue d"
  "ticks (initPacketList d) = ticks d"
  "workerHoldsMutex (initPacketList d) = workerHoldsMutex d"
  "cancelPending (initPacketList d) = cancelPending d"
  "received (initPacketList d) = received d"
  "cerr (initPacketList d) = cerr d"
  by (simp_all add: initPacketList_def MIDIPacketListInit_def Let_def received_emit cerr_emit)

lemma send_fields [simp]:
  "midiPacketList (snd (send e pktlist d)) = Some []"
  "curPacket (snd (send e pktlist d)) = Some 0"
  "packetListSize (snd (send e pktlist d)) = packetListSize d"
  "midiMessageQueue (snd (send e pktlist d)) = midiMessageQueue d"
  "ticks (snd (send e pktlist d)) = ticks d"
  "workerHoldsMutex (snd (send e pktlist d)) = workerHoldsMutex d"
  "cancelPending (snd (send e pktlist d)) = cancelPending d"
  "received (snd (send e pktlist d)) = received d @ [pktlist]"
  "cerr (snd (send e pktlist d)) = cerr d"
  by (simp_all add: send_def Let_def received_emit cerr_emit)

lemma enqueued_emit: "enqueued (emit c d) = enqueued d @ pushOf c"
  by (simp add: enqueued_def emit_def)

lemma enqueued_upd [simp]:
  "enqueued (d\<lparr>midiPacketList := p\<rparr>) = enqueued d"
  "enqueued (d\<lparr>curPacket := q\<rparr>) = enqueued d"
  "enqueued (d\<lparr>ticks := n\<rparr>) = enqueued d"
  "enqueued (d\<lparr>midiMessageQueue := ms\<rparr>) = enqueued d"
  "enqueued (d\<lparr>workerHoldsMutex := b\<rparr>) = enqueued d"
  by (simp_all add: enqueued_def)

lemma enqueued_initPacketList [simp]: "enqueued (initPacketList d) = enqueued d"
  by (simp add: initPacketList_def Let_def enqueued_emit)

lemma enqueued_send [simp]: "enqueued (snd (send e pktlist d)) = enqueued d"
  by (simp add: send_def Let_def enqueued_emit)

lemma writeControl_ready:
  assumes "bufferReady d" "control < 120" "val \<le> 127"
  shows "writeControl e control val d =
           Inr (snd (send e [\<lparr>timeStamp = 0, pdata = [0xB0, of_nat control, of_nat val]\<rparr>]
                  (d\<lparr>midiPacketList := Some [\<lparr>timeStamp = 0, pdata = [0xB0, of_nat control, of_nat val]\<rparr>],
                     curPacket := Some 0\<rparr>)))"
  using assms
  by (simp add: writeControl_def bufferReady_def MIDIPacketListAdd_def listBytes_def Let_def)

lemma writeControl_outcome:
  assumes "bufferReady d"
  shows "(\<exists>d'. writeControl e control val d = Inr d' \<and> bufferReady d'
            \<and> control < 120 \<and> val \<le> 127 \<and> ticks d' = ticks d
            \<and> received d' = received d @ [[\<lparr>timeStamp = 0, pdata = [0xB0, of_nat control, of_nat val]\<rparr>]]
            \<and> cerr d' = cerr d \<and> midiMessageQueue d' = midiMessageQueue d
            \<and> enqueued d' = enqueued d)
         \<or> (writeControl e control val d = Inl (AssertionFailed, d) \<and> \<not> (control < 120 \<and> val \<le> 127))"
proof (cases "control < 120 \<and> val \<le> 127")
  case True
  then show ?thesis
    using assms writeControl_ready [OF assms, of control val e]
    by (simp add: bufferReady_def)
next
  case False
  then show ?thesis by (auto simp: writeControl_def)
qed

lemma gettimeofday_eq: "gettimeofday e d = (clock e (ticks d), d\<lparr>ticks := Suc (ticks d)\<rparr>)"
  by (simp add: gettimeofday_def)

lemma bufferReady_upd [simp]:
  "bufferReady (d\<lparr>ticks := n\<rparr>) = bufferReady d"
  "bufferReady (emit c d) = bufferReady d"
  "bufferReady (d\<lparr>midiMessageQueue := ms\<rparr>) = bufferReady d"
  "bufferReady (d\<lparr>workerHoldsMutex := b\<rparr>) = bufferReady d"
  by (simp_all add: bufferReady_def)

lemma writeControlMessages_batch:
  "bufferReady d \<Longrightarrow> \<forall>m\<in>set msgs. inRange m \<Longrightarrow>
   \<exists>d'. writeControlMessages e msgs d = Inr d' \<and> bufferReady d'
     \<and> ticks d' = ticks d + length msgs
     \<and> received d' = received d
         @ map (\<lambda>km. controlChange (snd km)) (filter (\<lambda>km. \<not> stale e km) (enumerate (ticks d) msgs))
     \<and> cerr d' = cerr d
         @ map (\<lambda>km. LatencyWarning (elapsedTime (clock e (fst km)) (timestamp (snd km))))
             (filter (stale e) (enumerate (ticks d) msgs))"
proof (induction msgs arbitrary: d)
  case Nil
  then show ?case by simp
next
  case (Cons msg msgs)
  let ?d1 = "d\<lparr>ticks := Suc (ticks d)\<rparr>"
  have rng: "control_index msg < 120" "control_value msg \<le> 127" and rest: "\<forall>m\<in>set msgs. inRange m"
    using Cons.prems(2) by (auto simp: inRange_def)
  show ?case
  proof (cases "stale e (ticks d, msg)")
    case True
    let ?d2 = "emit (Cerr (LatencyWarning (elapsedTime (clock e (ticks d)) (timestamp msg)))) ?d1"
    have step: "writeControlMessages e (msg # msgs) d = writeControlMessages e msgs ?d2"
      using True by (simp add: gettimeofday_eq stale_def)
    have "bufferReady ?d2" using Cons.prems(1) by simp
    from Cons.IH [OF this rest] obtain d' where
      "writeControlMessages e msgs ?d2 = Inr d'" "bufferReady d'"
      "ticks d' = ticks ?d2 + length msgs"
      "received d' = received ?d2
         @ map (\<lambda>km. controlChange (snd km)) (filter (\<lambda>km. \<not> stale e km) (enumerate (ticks ?d2) msgs))"
      "cerr d' = cerr ?d2
         @ map (\<lambda>km. LatencyWarning (elapsedTime (clock e (fst km)) (timestamp (snd km))))
             (filter (stale e) (enumerate (ticks ?d2) msgs))"
      by blast
    then show ?thesis
      using True step by (simp add: received_emit cerr_emit)
  next
    case False
    from writeControl_outcome [of ?d1 e "control_index msg" "control_value msg"] rng Cons.prems(1)
    obtain d2 where w: "writeControl e (control_index msg) (control_value msg) ?d1 = Inr d2"
      and d2: "bufferReady d2" "ticks d2 = Suc (ticks d)"
        "received d2 = received d @ [controlChange msg]" "cerr d2 = cerr d"
      by (auto simp: controlChange_def)
    have step: "writeControlMessages e (msg # msgs) d = writeControlMessages e msgs d2"
      using False w by (simp add: gettimeofday_eq stale_def)
    from Cons.IH [OF d2(1) rest] obtain d' where
      "writeControlMessages e msgs d2 = Inr d'" "bufferReady d'"
      "ticks d' = ticks d2 + length msgs"
      "received d' = received d2
         @ map (\<lambda>km. controlChange (snd km)) (filter (\<lambda>km. \<not> stale e km) (enumerate (ticks d2) msgs))"
      "cerr d' = cerr d2
         @ map (\<lambda>km. LatencyWarning (elapsedTime (clock e (fst km)) (timestamp (snd km))))
             (filter (stale e) (enumerate (ticks d2) msgs))"
      by blast
    then show ?thesis
      using False step d2 by simp
  qed
qed

lemma writeControlMessages_any:
  "bufferReady d \<Longrightarrow>
   bufferReady (finalState (writeControlMessages e msgs d))
   \<and> (\<exists>xs. subseq xs msgs
         \<and> received (finalState (writeControlMessages e msgs d)) = received d @ map controlChange xs)
   \<and> midiMessageQueue (finalState (writeControlMessages e msgs d)) = midiMessageQueue d
   \<and> enqueued (finalState (writeControlMessages e msgs d)) = enqueued d
   \<and> (\<forall>x. writeControlMessages e msgs d = Inl x \<longrightarrow> fst x = AssertionFailed)"
proof (induction msgs arbitrary: d)
  case Nil
  then show ?case by simp
next
  case (Cons msg msgs)
  let ?d1 = "d\<lparr>ticks := Suc (ticks d)\<rparr>"
  show ?case
  proof (cases "stale e (ticks d, msg)")
    case True
    let ?d2 = "emit (Cerr (LatencyWarning (elapsedTime (clock e (ticks d)) (timestamp msg)))) ?d1"
    have step: "writeControlMessages e (msg # msgs) d = writeControlMessages e msgs ?d2"
      using True by (simp add: gettimeofday_eq stale_def)
    have r: "bufferReady ?d2" using Cons.prems by simp
    from Cons.IH [OF r] obtain xs where xs: "subseq xs msgs"
      "received (finalState (writeControlMessages e msgs ?d2)) = received ?d2 @ map controlChange xs"
      by blast
    have "subseq xs (msg # msgs)" using xs(1) by (rule list_emb_Cons)
    then show ?thesis
      using Cons.IH [OF r] xs(2) unfolding step
      by (auto simp: received_emit enqueued_emit)
  next
    case False
    from writeControl_outcome [of ?d1 e "control_index msg" "control_value msg"] Cons.prems
    consider d2 where "writeControl e (control_index msg) (control_value msg) ?d1 = Inr d2"
        "bufferReady d2" "received d2 = received d @ [controlChange msg]"
        "midiMessageQueue d2 = midiMessageQueue d" "enqueued d2 = enqueued d"
      | "writeControl e (control_index msg) (control_value msg) ?d1 = Inl (AssertionFailed, ?d1)"
      by (auto simp: controlChange_def)
    then show ?thesis
    proof cases
      case 1
      have step: "writeControlMessages e (msg # msgs) d = writeControlMessages e msgs d2"
        using False 1(1) by (simp add: gettimeofday_eq stale_def)
      from Cons.IH [OF 1(2)] obtain xs where xs: "subseq xs msgs"
        "received (finalState (writeControlMessages e msgs d2)) = received d2 @ map controlChange xs"
        by blast
      have "subseq (msg # xs) (msg # msgs)" using xs(1) by simp
      moreover have "received (finalState (writeControlMessages e msgs d2))
          = received d @ map controlChange (msg # xs)"
        using xs(2) 1(3) by simp
      ultimately have "\<exists>ys. subseq ys (msg # msgs)
          \<and> received (finalState (writeControlMessages e msgs d2)) = received d @ map controlChange ys"
        by blast
      then show ?thesis
        using Cons.IH [OF 1(2)] 1 unfolding step by simp
    next
      case 2
      have step: "writeControlMessages e (msg # msgs) d = Inl (AssertionFailed, ?d1)"
        using False 2 by (simp add: gettimeofday_eq stale_def)
      have "subseq [] (msg # msgs)" by simp
      moreover have "received ?d1 = received d @ map controlChange []" by simp
      ultimately have "\<exists>ys. subseq ys (msg # msgs) \<and> received ?d1 = received d @ map controlChange ys"
        by blast
      then show ?thesis
        using Cons.prems unfolding step by simp
    qed
  qed
qed

subsection \<open>The worker loop\<close>

lemma copyQueue_eq:
  "copyQueue queueCopy d =
     (queueCopy @ midiMessageQueue d,
      d\<lparr>midiMessageQueue := [],
        trace := trace d @ replicate (length (midiMessageQueue d)) (QueuePop (workerHoldsMutex d))\<rparr>)"
proof (induction queueCopy d rule: copyQueue.induct)
  case (1 queueCopy d)
  show ?case
  proof (cases "midiMessageQueue d")
    case Nil
    then show ?thesis by (subst copyQueue.simps) simp
  next
    case (Cons msg rest)
    then show ?thesis
      using "1.IH" [OF Cons]
      by (subst copyQueue.simps) (simp add: emit_def replicate_append_same)
  qed
qed

lemma copyQueue_fields [simp]:
  "fst (copyQueue queueCopy d) = queueCopy @ midiMessageQueue d"
  "midiMessageQueue (snd (copyQueue queueCopy d)) = []"
  "received (snd (copyQueue queueCopy d)) = received d"
  "enqueued (snd (copyQueue queueCopy d)) = enqueued d"
  "cerr (snd (copyQueue queueCopy d)) = cerr d"
  "bufferReady (snd (copyQueue queueCopy d)) = bufferReady d"
  "workerHoldsMutex (snd (copyQueue queueCopy d)) = workerHoldsMutex d"
  by (simp_all add: copyQueue_eq received_def enqueued_def cerr_def bufferReady_def)

lemma addControlMessage_fields [simp]:
  "midiMessageQueue (addControlMessage e i v d) =
     midiMessageQueue d @ [\<lparr>control_index = i, control_value = v, timestamp = clock e (ticks d)\<rparr>]"
  "enqueued (addControlMessage e i v d) =
     enqueued d @ [\<lparr>control_index = i, control_value = v, timestamp = clock e (ticks d)\<rparr>]"
  "received (addControlMessage e i v d) = received d"
  "cerr (addControlMessage e i v d) = cerr d"
  "bufferReady (addControlMessage e i v d) = bufferReady d"
  "cancelPending (addControlMessage e i v d) = cancelPending d"
  by (simp_all add: addControlMessage_def gettimeofday_eq Let_def received_emit enqueued_emit cerr_emit)

lemma tracked_addControlMessage: "tracked d \<Longrightarrow> tracked (addControlMessage e i v d)"
  by (auto simp: tracked_def)

lemma tracked_arrivals:
  "tracked d \<Longrightarrow> tracked (fold (\<lambda>(i, v). addControlMessage e i v) arrivals d)"
  by (induction arrivals arbitrary: d) (auto simp: tracked_addControlMessage)

lemma tracked_upd [simp]:
  "tracked (d\<lparr>ticks := n\<rparr>) = tracked d"
  "tracked (d\<lparr>workerHoldsMutex := b\<rparr>) = tracked d"
  by (simp_all add: tracked_def)

lemma tracked_emit: "receivedOf c = [] \<Longrightarrow> pushOf c = [] \<Longrightarrow> tracked (emit c d) = tracked d"
  by (simp add: tracked_def received_emit enqueued_emit)

lemma tracked_wait: "tracked d \<Longrightarrow> tracked (pthread_cond_timedwait e ts arrivals res d)"
  by (simp add: pthread_cond_timedwait_def Let_def tracked_arrivals tracked_emit)

lemma tracked_unlock: "tracked (snd (pthread_mutex_unlock d)) = tracked d"
  by (simp add: pthread_mutex_unlock_def tracked_emit)

lemma tracked_batch:
  assumes "bufferReady d" "midiMessageQueue d = []" "enqueued d = old @ batch"
    "subseq (received d) (map controlChange old)"
  shows "tracked (finalState (writeControlMessages e batch d))"
proof -
  let ?d' = "finalState (writeControlMessages e batch d)"
  from writeControlMessages_any [OF assms(1), of e batch]
  obtain xs where xs: "subseq xs batch" "received ?d' = received d @ map controlChange xs"
    and rest: "bufferReady ?d'" "midiMessageQueue ?d' = []" "enqueued ?d' = old @ batch"
    using assms(2,3) by auto
  have "subseq (map controlChange xs) (map controlChange batch)"
    using xs(1) by (rule subseq_map)
  with assms(4) have "subseq (received ?d') (map controlChange (old @ batch))"
    unfolding xs(2) by (simp add: list_emb_append_mono)
  then show ?thesis
    using rest by (auto simp: tracked_def)
qed

lemma unlock_eq:
  "pthread_mutex_unlock d =
     (if workerHoldsMutex d then 0 else EPERM,
      (emit (WorkerUnlock (workerHoldsMutex d)) d)\<lparr>workerHoldsMutex := False\<rparr>)"
  by (simp add: pthread_mutex_unlock_def)

lemma wait_holds [simp]:
  "workerHoldsMutex (pthread_cond_timedwait e ts arrivals res d) = (res = 0 \<or> res = ETIMEDOUT)"
  by (simp add: pthread_cond_timedwait_def Let_def)

lemma loopBody_cases:
  "loopBody e arrivals res d =
     (let d2 = pthread_cond_timedwait e (waitDeadline (clock e (ticks d))) arrivals res
                 (d\<lparr>ticks := Suc (ticks d)\<rparr>)
      in if cancelPending d then Inl (ThreadCancelled, d)
         else if res = ETIMEDOUT then Inr (emit (Cout ''ETIMEDOUT'') d2)
         else if res \<noteq> 0 then Inl (Exit1, emit (Cerr (UnexpectedWaitRetval res)) d2)
         else if midiMessageQueue d2 = [] then Inr (snd (pthread_mutex_unlock d2))
         else writeControlMessages e (midiMessageQueue d2)
                (snd (pthread_mutex_unlock (snd (copyQueue [] d2)))))"
  by (simp add: loopBody_def gettimeofday_eq Let_def split_beta unlock_eq)

lemma tracked_loopBody:
  assumes "tracked d"
  shows "tracked (finalState (loopBody e arrivals res d))"
proof -
  let ?d1 = "d\<lparr>ticks := Suc (ticks d)\<rparr>"
  let ?d2 = "pthread_cond_timedwait e (waitDeadline (clock e (ticks d))) arrivals res ?d1"
  have t2: "tracked ?d2" using assms by (simp add: tracked_wait)
  then obtain old where old: "enqueued ?d2 = old @ midiMessageQueue ?d2"
    "subseq (received ?d2) (map controlChange old)" and rdy: "bufferReady ?d2"
    by (auto simp: tracked_def)
  let ?d4 = "snd (pthread_mutex_unlock (snd (copyQueue [] ?d2)))"
  have t4: "tracked (finalState (writeControlMessages e (midiMessageQueue ?d2) ?d4))"
  proof (rule tracked_batch [where old = old])
    show "bufferReady ?d4" using rdy by (simp add: unlock_eq)
    show "midiMessageQueue ?d4 = []" by (simp add: unlock_eq)
    show "enqueued ?d4 = old @ midiMessageQueue ?d2" using old(1) by (simp add: unlock_eq enqueued_emit)
    show "subseq (received ?d4) (map controlChange old)" using old(2) by (simp add: unlock_eq received_emit)
  qed
  consider "cancelPending d" | "\<not> cancelPending d" "res = ETIMEDOUT"
    | "\<not> cancelPending d" "res \<noteq> ETIMEDOUT" "res \<noteq> 0"
    | "\<not> cancelPending d" "res \<noteq> ETIMEDOUT" "res = 0" "midiMessageQueue ?d2 = []"
    | "\<not> cancelPending d" "res \<noteq> ETIMEDOUT" "res = 0" "midiMessageQueue ?d2 \<noteq> []"
    by blast
  then show ?thesis
  proof cases
    case 1
    then show ?thesis using assms by (simp add: loopBody_cases)
  next
    case 2
    then show ?thesis using t2 by (simp add: loopBody_cases tracked_emit)
  next
    case 3
    then show ?thesis using t2 by (simp add: loopBody_cases tracked_emit)
  next
    case 4
    then show ?thesis using t2 by (simp add: loopBody_cases tracked_unlock)
  next
    case 5
    then show ?thesis using t4 by (simp add: loopBody_cases Let_def)
  qed
qed

lemma tracked_workerLoop:
  "tracked d \<Longrightarrow> tracked (finalState (workerLoop e schedule d))"
proof (induction schedule arbitrary: d)
  case Nil
  then show ?case by simp
next
  case (Cons step schedule)
  obtain arrivals res where step: "step = (arrivals, res)" by (cases step)
  show ?case
  proof (cases "loopBody e arrivals res d")
    case (Inl x)
    then show ?thesis
      using tracked_loopBody [OF Cons.prems, of e arrivals res] by (simp add: step)
  next
    case (Inr d')
    then show ?thesis
      using tracked_loopBody [OF Cons.prems, of e arrivals res] Cons.IH [of d'] by (simp add: step)
  qed
qed

lemma tracked_subseq: "tracked d \<Longrightarrow> subseq (received d) (map controlChange (enqueued d))"
proof -
  assume "tracked d"
  then obtain old where "enqueued d = old @ midiMessageQueue d"
    "subseq (received d) (map controlChange old)"
    by (auto simp: tracked_def)
  then show ?thesis
    by (simp add: list_emb_prefix)
qed

subsection \<open>The status of the driver\<close>

lemma device0_eq:
  "device0 = \<lparr>packetListSize = 512, deviceClient = Some (), deviceEndpoint = Some (),
      midiPacketList = Some [], curPacket = Some 0, midiMessageQueue = [],
      messageQueueThread = True, ticks = 0, workerHoldsMutex = False,
      cancelPending = False, trace = [Malloc 512, MIDIClientCreate, MIDISourceCreate, PthreadCreate]\<rparr>"
  by (simp add: device0_def init_def createDevice_def initPacketList_def Device_new_def env0_def
      emit_def MIDIPacketListInit_def Let_def)

lemma send_status_free: "snd (send (e\<lparr>midiReceived := r\<rparr>) pktlist d) = snd (send e pktlist d)"
  by (simp add: send_def Let_def)

lemma writeControl_status_free:
  "writeControl (e\<lparr>midiReceived := r\<rparr>) control val d = writeControl e control val d"
  by (simp add: writeControl_def Let_def send_status_free split: option.splits prod.splits)

lemma gettimeofday_status_free: "gettimeofday (e\<lparr>midiReceived := r\<rparr>) d = gettimeofday e d"
  by (simp add: gettimeofday_def)

lemma writeControlMessages_status_free:
  "writeControlMessages (e\<lparr>midiReceived := r\<rparr>) msgs d = writeControlMessages e msgs d"
  by (induction msgs arbitrary: d)
    (simp_all add: gettimeofday_status_free writeControl_status_free split: prod.splits sum.splits)

lemma addControlMessage_status_free:
  "addControlMessage (e\<lparr>midiReceived := r\<rparr>) = addControlMessage e"
  by (intro ext) (simp add: addControlMessage_def gettimeofday_status_free)

lemma wait_status_free:
  "pthread_cond_timedwait (e\<lparr>midiReceived := r\<rparr>) = pthread_cond_timedwait e"
  by (intro ext) (simp add: pthread_cond_timedwait_def addControlMessage_status_free)

lemma writeControlMessages_status_free':
  "writeControlMessages (e\<lparr>midiReceived := r\<rparr>) = writeControlMessages e"
  by (intro ext) (rule writeControlMessages_status_free)

lemma loopBody_status_free:
  "loopBody (e\<lparr>midiReceived := r\<rparr>) arrivals res d = loopBody e arrivals res d"
  unfolding loopBody_def gettimeofday_status_free wait_status_free writeControlMessages_status_free'
  by (rule refl)

lemma workerLoop_status_free:
  "workerLoop (e\<lparr>midiReceived := r\<rparr>) schedule d = workerLoop e schedule d"
  by (induction schedule arbitrary: d) (auto simp: loopBody_status_free split: sum.splits)

lemma bufferReady_device0: "bufferReady device0"
  by (simp add: device0_eq bufferReady_def)

lemma ticks_device0: "ticks device0 = 0" and received_device0: "received device0 = []"
  and cerr_device0: "cerr device0 = []"
  by (simp_all add: device0_eq received_def cerr_def)

lemma enqueued_device0: "enqueued device0 = []" and queue_device0: "midiMessageQueue device0 = []"
  by (simp_all add: device0_eq enqueued_def)

lemma map_over_enumerate: "map (\<lambda>km. f (snd km)) (enumerate n xs) = map f xs"
  by (induction xs arbitrary: n) simp_all

subsection \<open>The trace only grows\<close>

lemma trace_upd [simp]:
  "trace (d\<lparr>midiPacketList := p\<rparr>) = trace d"
  "trace (d\<lparr>curPacket := q\<rparr>) = trace d"
  "trace (d\<lparr>ticks := n\<rparr>) = trace d"
  "trace (d\<lparr>midiMessageQueue := ms\<rparr>) = trace d"
  "trace (d\<lparr>workerHoldsMutex := b\<rparr>) = trace d"
  by simp_all

lemma trace_initPacketList: "prefix (trace d) (trace (initPacketList d))"
  by (simp add: initPacketList_def Let_def)

lemma trace_send: "prefix (trace d) (trace (snd (send e pktlist d)))"
proof -
  have "prefix (trace (emit (MIDIReceived pktlist) d)) (trace (snd (send e pktlist d)))"
    unfolding send_def Let_def snd_conv by (rule trace_initPacketList)
  then show ?thesis by (simp add: append_prefixD)
qed

lemma trace_writeControl: "prefix (trace d) (trace (finalState (writeControl e control val d)))"
proof -
  have "prefix (trace d) (trace (snd (send e pktlist (d\<lparr>midiPacketList := p, curPacket := q\<rparr>))))"
    for pktlist p q
    using trace_send [of "d\<lparr>midiPacketList := p, curPacket := q\<rparr>" e pktlist] by simp
  then show ?thesis
    by (simp add: writeControl_def Let_def split: option.splits prod.splits)
qed

lemma trace_writeControlMessages:
  "prefix (trace d) (trace (finalState (writeControlMessages e msgs d)))"
proof (induction msgs arbitrary: d)
  case Nil
  then show ?case by simp
next
  case (Cons msg msgs)
  let ?d1 = "d\<lparr>ticks := Suc (ticks d)\<rparr>"
  show ?case
  proof (cases "elapsedTime (clock e (ticks d)) (timestamp msg) > 2")
    case True
    let ?d2 = "emit (Cerr (LatencyWarning (elapsedTime (clock e (ticks d)) (timestamp msg)))) ?d1"
    have "prefix (trace ?d2) (trace (finalState (writeControlMessages e (msg # msgs) d)))"
      using True Cons.IH [of ?d2] by (simp add: gettimeofday_eq)
    then show ?thesis by (simp add: append_prefixD)
  next
    case False
    have w: "prefix (trace d) (trace (finalState (writeControl e (control_index msg) (control_value msg) ?d1)))"
      using trace_writeControl [of ?d1 e "control_index msg" "control_value msg"] by simp
    show ?thesis
    proof (cases "writeControl e (control_index msg) (control_value msg) ?d1")
      case (Inl x)
      then show ?thesis using False w by (simp add: gettimeofday_eq)
    next
      case (Inr d2)
      then have "prefix (trace d) (trace d2)" using w by simp
      moreover have "prefix (trace d2) (trace (finalState (writeControlMessages e (msg # msgs) d)))"
        using False Inr Cons.IH [of d2] by (simp add: gettimeofday_eq)
      ultimately show ?thesis by (rule prefix_order.trans)
    qed
  qed
qed

lemma trace_addControlMessage: "prefix (trace d) (trace (addControlMessage e i v d))"
  by (simp add: addControlMessage_def gettimeofday_eq Let_def)

lemma trace_arrivals:
  "prefix (trace d) (trace (fold (\<lambda>(i, v). addControlMessage e i v) arrivals d))"
proof (induction arrivals arbitrary: d)
  case Nil
  then show ?case by simp
next
  case (Cons a arrivals)
  obtain i v where a: "a = (i, v)" by (cases a)
  have "prefix (trace d) (trace (addControlMessage e i v d))"
    by (rule trace_addControlMessage)
  moreover have "prefix (trace (addControlMessage e i v d))
      (trace (fold (\<lambda>(i, v). addControlMessage e i v) (a # arrivals) d))"
    using Cons.IH [of "addControlMessage e i v d"] by (simp add: a)
  ultimately show ?case by (rule prefix_order.trans)
qed

lemma trace_wait:
  "prefix (trace d @ [CondTimedWait (workerHoldsMutex d) ts])
     (trace (pthread_cond_timedwait e ts arrivals res d))"
  using trace_arrivals [of "(emit (CondTimedWait (workerHoldsMutex d) ts) d)\<lparr>workerHoldsMutex := False\<rparr>"
      e arrivals]
  by (simp add: pthread_cond_timedwait_def Let_def)

lemma trace_loopBody:
  assumes "\<not> cancelPending d"
  shows "prefix (trace d @ [CondTimedWait (workerHoldsMutex d) (waitDeadline (clock e (ticks d)))])
     (trace (finalState (loopBody e arrivals res d)))"
proof -
  let ?d2 = "pthread_cond_timedwait e (waitDeadline (clock e (ticks d))) arrivals res
                 (d\<lparr>ticks := Suc (ticks d)\<rparr>)"
  have a: "prefix (trace d @ [CondTimedWait (workerHoldsMutex d) (waitDeadline (clock e (ticks d)))])
     (trace ?d2)"
    using trace_wait [of "d\<lparr>ticks := Suc (ticks d)\<rparr>" "waitDeadline (clock e (ticks d))" e arrivals res]
    by simp
  have "prefix (trace ?d2) (trace (snd (pthread_mutex_unlock (snd (copyQueue [] ?d2)))))"
    by (simp add: unlock_eq copyQueue_eq)
  moreover have "prefix (trace (snd (pthread_mutex_unlock (snd (copyQueue [] ?d2)))))
      (trace (finalState (writeControlMessages e (midiMessageQueue ?d2)
                (snd (pthread_mutex_unlock (snd (copyQueue [] ?d2)))))))"
    by (rule trace_writeControlMessages)
  ultimately have b: "prefix (trace ?d2)
      (trace (finalState (writeControlMessages e (midiMessageQueue ?d2)
                (snd (pthread_mutex_unlock (snd (copyQueue [] ?d2)))))))"
    by (rule prefix_order.trans)
  have "prefix (trace ?d2) (trace (finalState (loopBody e arrivals res d)))"
  proof (cases "res = ETIMEDOUT \<or> res \<noteq> 0 \<or> midiMessageQueue ?d2 = []")
    case True
    then show ?thesis
      using assms by (auto simp: loopBody_cases Let_def unlock_eq)
  next
    case False
    then have "loopBody e arrivals res d
        = writeControlMessages e (midiMessageQueue ?d2)
            (snd (pthread_mutex_unlock (snd (copyQueue [] ?d2))))"
      using assms by (simp add: loopBody_cases Let_def)
    then show ?thesis using b by (simp only:)
  qed
  with a show ?thesis by (rule prefix_order.trans)
qed

lemma loopBody_trace:
  assumes "\<not> cancelPending d"
  shows "take (Suc (length (trace d))) (trace (finalState (loopBody e arrivals res d)))
     = trace d @ [CondTimedWait (workerHoldsMutex d) (waitDeadline (clock e (ticks d)))]"
proof -
  from trace_loopBody [OF assms, of e arrivals res] obtain rest where
    "trace (finalState (loopBody e arrivals res d))
       = (trace d @ [CondTimedWait (workerHoldsMutex d) (waitDeadline (clock e (ticks d)))]) @ rest"
    by (auto simp: prefix_def)
  then show ?thesis by simp
qed

subsection \<open>The pops of the shared queue\<close>

lemma pops_emit: "pops (emit c d) = pops d @ popOf c"
  by (simp add: pops_def emit_def)

lemma pops_upd [simp]:
  "pops (d\<lparr>midiPacketList := p\<rparr>) = pops d"
  "pops (d\<lparr>curPacket := q\<rparr>) = pops d"
  "pops (d\<lparr>ticks := n\<rparr>) = pops d"
  "pops (d\<lparr>midiMessageQueue := ms\<rparr>) = pops d"
  "pops (d\<lparr>workerHoldsMutex := b\<rparr>) = pops d"
  by (simp_all add: pops_def)

lemma pops_initPacketList [simp]: "pops (initPacketList d) = pops d"
  by (simp add: initPacketList_def Let_def pops_emit)

lemma pops_send [simp]: "pops (snd (send e pktlist d)) = pops d"
  by (simp add: send_def Let_def pops_emit)

lemma pops_writeControl: "pops (finalState (writeControl e control val d)) = pops d"
  by (simp add: writeControl_def Let_def pops_emit split: option.splits prod.splits)

lemma pops_writeControlMessages: "pops (finalState (writeControlMessages e msgs d)) = pops d"
proof (induction msgs arbitrary: d)
  case Nil
  then show ?case by simp
next
  case (Cons msg msgs)
  let ?d1 = "d\<lparr>ticks := Suc (ticks d)\<rparr>"
  show ?case
  proof (cases "writeControl e (control_index msg) (control_value msg) ?d1")
    case (Inl x)
    then show ?thesis
      using pops_writeControl [of e "control_index msg" "control_value msg" ?d1] Cons.IH
      by (simp add: gettimeofday_eq pops_emit)
  next
    case (Inr d2)
    then show ?thesis
      using pops_writeControl [of e "control_index msg" "control_value msg" ?d1] Cons.IH
      by (simp add: gettimeofday_eq pops_emit)
  qed
qed

lemma pops_addControlMessage [simp]: "pops (addControlMessage e i v d) = pops d"
  by (simp add: addControlMessage_def gettimeofday_eq Let_def pops_emit)

lemma pops_arrivals: "pops (fold (\<lambda>(i, v). addControlMessage e i v) arrivals d) = pops d"
  by (induction arrivals arbitrary: d) auto

lemma pops_wait [simp]: "pops (pthread_cond_timedwait e ts arrivals res d) = pops d"
  by (simp add: pthread_cond_timedwait_def Let_def pops_arrivals pops_emit)

lemma pops_copyQueue:
  "pops (snd (copyQueue queueCopy d))
     = pops d @ replicate (length (midiMessageQueue d)) (workerHoldsMutex d)"
  by (simp add: copyQueue_eq pops_def)

lemma pops_loopBody:
  "\<exists>n. pops (finalState (loopBody e arrivals res d)) = pops d @ replicate n True"
proof -
  let ?d2 = "pthread_cond_timedwait e (waitDeadline (clock e (ticks d))) arrivals res
                 (d\<lparr>ticks := Suc (ticks d)\<rparr>)"
  show ?thesis
  proof (cases "cancelPending d \<or> res = ETIMEDOUT \<or> res \<noteq> 0 \<or> midiMessageQueue ?d2 = []")
    case True
    then have "pops (finalState (loopBody e arrivals res d)) = pops d @ replicate 0 True"
      by (auto simp: loopBody_cases Let_def unlock_eq pops_emit)
    then show ?thesis by blast
  next
    case False
    then have "loopBody e arrivals res d
        = writeControlMessages e (midiMessageQueue ?d2)
            (snd (pthread_mutex_unlock (snd (copyQueue [] ?d2))))"
      by (simp add: loopBody_cases Let_def)
    moreover have "pops (snd (pthread_mutex_unlock (snd (copyQueue [] ?d2))))
        = pops d @ replicate (length (midiMessageQueue ?d2)) True"
      using False by (simp add: unlock_eq pops_emit pops_copyQueue)
    ultimately have "pops (finalState (loopBody e arrivals res d))
        = pops d @ replicate (length (midiMessageQueue ?d2)) True"
      by (simp add: pops_writeControlMessages)
    then show ?thesis by blast
  qed
qed

subsection \<open>Single passes of the worker\<close>

lemma loopBody_timeout:
  "\<not> cancelPending d \<Longrightarrow> loopBody e [] ETIMEDOUT d = Inr (timedOut e d)"
  by (simp add: loopBody_cases timedOut_def pthread_cond_timedwait_def Let_def)

lemma loopBody_cancelled: "cancelPending d \<Longrightarrow> loopBody e arrivals res d = Inl (ThreadCancelled, d)"
  by (simp add: loopBody_def)

lemma draining_pass:
  assumes "\<not> cancelPending d" and "midiMessageQueue d \<noteq> []"
  shows "loopBody e [] 0 d
       = writeControlMessages e (midiMessageQueue d)
           (d\<lparr>ticks := Suc (ticks d), midiMessageQueue := [],
              trace := trace d @ [CondTimedWait (workerHoldsMutex d) (waitDeadline (clock e (ticks d)))]
                @ replicate (length (midiMessageQueue d)) (QueuePop True) @ [WorkerUnlock True],
              workerHoldsMutex := False\<rparr>)"
  using assms
  by (simp add: loopBody_cases pthread_cond_timedwait_def Let_def ETIMEDOUT_def copyQueue_eq unlock_eq
      emit_def)

subsection \<open>A run of the worker, evaluated\<close>

lemma run0:
  "received (finalState (messageSendingThreadEntry env1 schedule0 device0))
     = [[\<lparr>timeStamp = 0, pdata = [0xB0, 5, 100]\<rparr>], [\<lparr>timeStamp = 0, pdata = [0xB0, 5, 64]\<rparr>]]
   \<and> map (\<lambda>m. (control_index m, control_value m))
        (enqueued (finalState (messageSendingThreadEntry env1 schedule0 device0)))
     = [(5, 100), (6, 3), (5, 64)]"
  by (simp add: messageSendingThreadEntry_def schedule0_def loopBody_cases device0_eq env1_def env0_def
      pthread_cond_timedwait_def addControlMessage_def gettimeofday_eq copyQueue_eq unlock_eq
      writeControl_def MIDIPacketListAdd_def listBytes_def send_def initPacketList_def
      MIDIPacketListInit_def emit_def Let_def ETIMEDOUT_def elapsedTime_def received_def enqueued_def)

section \<open>The properties\<close>

text \<open>
  C1. Every update of a batch is examined at its own reading of the clock: the update at
  position \<open>k\<close> of the batch at reading \<open>ticks d + k\<close>. When the buffer is ready and the
  updates are in range, the worker gets through the whole batch; the driver receives, in
  order, exactly the updates whose elapsed time at their examination is at most 2 ms, and
  \<^verbatim>\<open>std::cerr\<close> receives, in order, exactly one latency warning for each update whose
  elapsed time exceeds 2 ms.
\<close>

theorem staleness_bound:
  assumes "bufferReady d" and "\<forall>m\<in>set msgs. inRange m"
  shows "\<exists>d'. writeControlMessages e msgs d = Inr d'
     \<and> received d' = received d
         @ map (\<lambda>km. controlChange (snd km)) (filter (\<lambda>km. \<not> stale e km) (enumerate (ticks d) msgs))
     \<and> cerr d' = cerr d
         @ map (\<lambda>km. LatencyWarning (elapsedTime (clock e (fst km)) (timestamp (snd km))))
             (filter (stale e) (enumerate (ticks d) msgs))"
  using writeControlMessages_batch [OF assms, of e] by blast

theorem staleness_bound_witness:
  "\<exists>d'. writeControlMessages env0 batch0 device0 = Inr d'
     \<and> received d' = [[\<lparr>timeStamp = 0, pdata = [0xB0, 5, 100]\<rparr>], [\<lparr>timeStamp = 0, pdata = [0xB0, 5, 64]\<rparr>]]
     \<and> cerr d' = [LatencyWarning (2001 / 1000), LatencyWarning (2499 / 1000)]"
proof -
  have r: "\<forall>m\<in>set batch0. inRange m" by (simp add: batch0_def inRange_def)
  show ?thesis
    using staleness_bound [OF bufferReady_device0 r, of env0]
    by (simp add: ticks_device0 received_device0 cerr_device0 batch0_def enumerate_simps
        stale_def elapsedTime_def env0_def controlChange_def)
qed

text \<open>
  C2, on the code. The destructor of a device that is fully initialised calls, in this order:
  \<^verbatim>\<open>MIDIEndpointDispose\<close>, \<^verbatim>\<open>MIDIDeviceDispose\<close>, \<^verbatim>\<open>free\<close> of the packet buffer,
  and only then \<^verbatim>\<open>pthread_cancel\<close>; it then destroys the mutex and the condition variable.
  It never joins the worker thread. The endpoint, the client and the buffer are gone before
  the cancellation of the worker is even requested.
\<close>

theorem shutdown_order:
  assumes "deviceEndpoint d \<noteq> None" and "deviceClient d \<noteq> None"
    and "midiPacketList d \<noteq> None" and "messageQueueThread d"
  shows "trace (Device_delete d)
           = trace d @ [MIDIEndpointDispose, MIDIDeviceDispose, Free, PthreadCancel,
                        MutexDestroy, CondDestroy, Cout ''closed down device'']
     \<and> cancelPending (Device_delete d)"
  using assms by (simp add: Device_delete_def emit_def Let_def)

theorem shutdown_order_witness:
  "trace (Device_delete device0)
     = [Malloc 512, MIDIClientCreate, MIDISourceCreate, PthreadCreate,
        MIDIEndpointDispose, MIDIDeviceDispose, Free, PthreadCancel,
        MutexDestroy, CondDestroy, Cout ''closed down device'']"
proof -
  have "deviceEndpoint device0 \<noteq> None" "deviceClient device0 \<noteq> None"
    "midiPacketList device0 \<noteq> None" "messageQueueThread device0"
    by (simp_all add: device0_eq)
  from shutdown_order [OF this] show ?thesis
    by (simp add: device0_eq)
qed

text \<open>
  C3, on the code. The worker never calls \<^verbatim>\<open>pthread_mutex_lock\<close>. In a pass that starts
  while the worker does not own the mutex (the first pass of the thread, and every pass after
  one that unlocked), the first call into the platform is \<^verbatim>\<open>pthread_cond_timedwait\<close>,
  and the worker does not own the mutex at that call. What the pass pops from the shared
  queue, it pops while it owns the mutex, which the return of the wait has handed to it.
\<close>

theorem wait_without_lock:
  assumes "\<not> cancelPending d" and "\<not> workerHoldsMutex d"
  shows "take (Suc (length (trace d))) (trace (finalState (loopBody e arrivals res d)))
           = trace d @ [CondTimedWait False (waitDeadline (clock e (ticks d)))]
     \<and> (\<exists>n. pops (finalState (loopBody e arrivals res d)) = pops d @ replicate n True)"
  using loopBody_trace [OF assms(1), of e arrivals res] assms(2)
    pops_loopBody [of e arrivals res d]
  by simp

theorem wait_without_lock_witness:
  "trace (finalState (messageSendingThreadEntry env0 [([(5, 100)], 0)] device0))
     = [Malloc 512, MIDIClientCreate, MIDISourceCreate, PthreadCreate,
        Cout ''messageSendingThreadEntry'', CondTimedWait False \<lparr>ts_sec = 3, ts_nsec = 0\<rparr>,
        ProducerLock,
        QueuePush \<lparr>control_index = 5, control_value = 100,
                   timestamp = \<lparr>tv_sec = 1, tv_usec = 2001\<rparr>\<rparr>,
        ProducerUnlock, CondSignal, QueuePop True, WorkerUnlock True,
        MIDIReceived [\<lparr>timeStamp = 0, pdata = [0xB0, 5, 100]\<rparr>], Free, Malloc 512]"
proof -
  let ?d = "emit (Cout ''messageSendingThreadEntry'') device0"
  have "\<not> cancelPending ?d" "\<not> workerHoldsMutex ?d"
    by (simp_all add: device0_eq)
  from wait_without_lock [OF this, of env0 "[(5, 100)]" 0] show ?thesis
    by (simp add: messageSendingThreadEntry_def loopBody_cases device0_eq env0_def
        pthread_cond_timedwait_def addControlMessage_def gettimeofday_eq copyQueue_eq unlock_eq
        writeControl_def MIDIPacketListAdd_def listBytes_def send_def initPacketList_def
        MIDIPacketListInit_def waitDeadline_def elapsedTime_def emit_def Let_def ETIMEDOUT_def)
qed

text \<open>
  C4, as the code has it. \<^verbatim>\<open>Device::send\<close> returns the status of the driver to its caller
  and writes nothing to \<^verbatim>\<open>std::cerr\<close>; \<^verbatim>\<open>writeControl\<close> drops the status. Hence the
  worker behaves the same whatever the driver answers: a run of the worker on a platform
  whose driver answers by \<open>r\<close> equals the run on the platform \<open>e\<close>, failure for failure,
  update for update. The worker does not stop on a failed send, and it logs no warning.
\<close>

theorem send_status_discarded:
  "fst (send e pktlist d) = midiReceived e (length (received d)) pktlist
   \<and> cerr (snd (send e pktlist d)) = cerr d
   \<and> writeControl (e\<lparr>midiReceived := r\<rparr>) control val d = writeControl e control val d
   \<and> messageSendingThreadEntry (e\<lparr>midiReceived := r\<rparr>) schedule d
       = messageSendingThreadEntry e schedule d"
  by (simp add: send_def Let_def cerr_emit writeControl_status_free workerLoop_status_free
      messageSendingThreadEntry_def)

text \<open>
  C4 as stated fails: the driver answers the send of the update (5, 100) with a status
  other than 0, the update was handed to the driver, and nothing was written to
  \<^verbatim>\<open>std::cerr\<close>.
\<close>

theorem send_failure_not_logged_counterexample:
  "fst (send env3 [\<lparr>timeStamp = 0, pdata = [0xB0, 5, 100]\<rparr>] device0) \<noteq> 0
   \<and> received (finalState (writeControl env3 5 100 device0))
       = [[\<lparr>timeStamp = 0, pdata = [0xB0, 5, 100]\<rparr>]]
   \<and> cerr (finalState (writeControl env3 5 100 device0)) = []"
  using writeControl_ready [OF bufferReady_device0, of 5 100 env3]
  by (simp add: send_def Let_def env3_def)
    (simp add: device0_eq received_def cerr_def)

text \<open>
  C5. \<^verbatim>\<open>Device::send\<close> leaves the member buffer allocated and empty with the cursor on the
  first packet, whatever the device was like before and whatever status the driver returns.
  Hence, from a ready buffer, a batch of any length leaves the buffer ready, never ends in
  the exit of the buffer overrun, and runs to its end when all updates are in range.
\<close>

theorem buffer_reset_after_send:
  "midiPacketList (snd (send e pktlist d)) = Some []
   \<and> curPacket (snd (send e pktlist d)) = Some 0
   \<and> (bufferReady d \<longrightarrow>
        bufferReady (snd (send e pktlist d))
        \<and> bufferReady (finalState (writeControlMessages e msgs d))
        \<and> (\<forall>d'. writeControlMessages e msgs d \<noteq> Inl (Exit1, d'))
        \<and> ((\<forall>m\<in>set msgs. inRange m) \<longrightarrow>
             (\<exists>d'. writeControlMessages e msgs d = Inr d' \<and> bufferReady d')))"
proof -
  have "bufferReady (snd (send e pktlist d))" if "bufferReady d"
    using that by (simp add: bufferReady_def)
  moreover have "bufferReady (finalState (writeControlMessages e msgs d))"
    and "\<forall>d'. writeControlMessages e msgs d \<noteq> Inl (Exit1, d')" if "bufferReady d"
    using writeControlMessages_any [OF that, of e msgs] by auto
  moreover have "\<exists>d'. writeControlMessages e msgs d = Inr d' \<and> bufferReady d'"
    if "bufferReady d" "\<forall>m\<in>set msgs. inRange m"
    using writeControlMessages_batch [OF that, of e] by blast
  ultimately show ?thesis by simp
qed

theorem buffer_reset_after_send_witness:
  "bufferReady (snd (send env3 (controlChange (hd batch0)) device0))
   \<and> (\<exists>d'. writeControlMessages env0 (batch0 @ scenario @ batch0) device0 = Inr d' \<and> bufferReady d')"
proof -
  have "\<forall>m\<in>set (batch0 @ scenario @ batch0). inRange m"
    by (simp add: batch0_def scenario_def inRange_def)
  then show ?thesis
    using bufferReady_device0
      buffer_reset_after_send [of env3 "controlChange (hd batch0)"
        device0 "[]"]
      buffer_reset_after_send [of env0 "[]" device0 "batch0 @ scenario @ batch0"]
    by blast
qed

text \<open>
  C6. When the buffer is ready and every update of a batch is in range and not stale at its
  examination, the driver receives one packet list per update, in the order of the batch;
  each list holds a single packet with the time stamp 0 and the three bytes
  \<open>0xB0\<close>, \<open>0x00 + index\<close>, \<open>value\<close>, and the two data bytes are the index and the
  value unchanged.
\<close>

theorem control_change_payload:
  assumes "bufferReady d" and "\<forall>m\<in>set msgs. inRange m"
    and "\<forall>km\<in>set (enumerate (ticks d) msgs). \<not> stale e km"
  shows "\<exists>d'. writeControlMessages e msgs d = Inr d'
     \<and> received d' = received d
         @ map (\<lambda>m. [\<lparr>timeStamp = 0,
                       pdata = [0xB0, 0x00 + of_nat (control_index m), of_nat (control_value m)]\<rparr>]) msgs
     \<and> (\<forall>m\<in>set msgs.
          map unat [0xB0 :: Byte, 0x00 + of_nat (control_index m), of_nat (control_value m)]
            = [0xB0, 0x00 + control_index m, control_value m])"
proof -
  from writeControlMessages_batch [OF assms(1,2), of e] obtain d' where
    d': "writeControlMessages e msgs d = Inr d'"
    "received d' = received d
         @ map (\<lambda>km. controlChange (snd km)) (filter (\<lambda>km. \<not> stale e km) (enumerate (ticks d) msgs))"
    by blast
  have "filter (\<lambda>km. \<not> stale e km) (enumerate (ticks d) msgs) = enumerate (ticks d) msgs"
    using assms(3) by (simp add: filter_id_conv)
  then have r: "received d' = received d @ map controlChange msgs"
    using d'(2) by (simp add: map_over_enumerate)
  have b: "\<forall>m\<in>set msgs.
          map unat [0xB0 :: Byte, 0x00 + of_nat (control_index m), of_nat (control_value m)]
            = [0xB0, 0x00 + control_index m, control_value m]"
  proof
    fix m assume "m \<in> set msgs"
    then have "control_index m < 120" "control_value m < 128"
      using assms(2) by (auto simp: inRange_def)
    then show "map unat [0xB0 :: Byte, 0x00 + of_nat (control_index m), of_nat (control_value m)]
            = [0xB0, 0x00 + control_index m, control_value m]"
      by (simp add: unat_of_nat)
  qed
  show ?thesis
    using d'(1) r b by (simp add: controlChange_def)
qed

theorem control_change_payload_witness:
  "\<exists>d'. writeControlMessages env0 scenario device0 = Inr d'
     \<and> received d' = [[\<lparr>timeStamp = 0, pdata = [0xB0, 0x05, 100]\<rparr>],
                      [\<lparr>timeStamp = 0, pdata = [0xB0, 0x05, 64]\<rparr>]]
     \<and> map unat [0xB0 :: Byte, 0x05, 100] = [176, 5, 100]
     \<and> map unat [0xB0 :: Byte, 0x05, 64] = [176, 5, 64]"
proof -
  have r: "\<forall>m\<in>set scenario. inRange m" by (simp add: scenario_def inRange_def)
  have f: "\<forall>km\<in>set (enumerate (ticks device0) scenario). \<not> stale env0 km"
    by (simp add: ticks_device0 scenario_def stale_def elapsedTime_def env0_def)
  show ?thesis
    using control_change_payload [OF bufferReady_device0 r f]
    by (simp add: received_device0 scenario_def)
qed

text \<open>
  C7, on the code. Unless a cancellation is pending, the first call of a pass is the timed
  wait, with the deadline \<^verbatim>\<open>tv_sec + 2\<close> seconds and 0 nanoseconds: the microseconds of
  the reading are dropped. For a reading of the clock with microseconds in [0, 1000000) the
  deadline lies 2 s minus those microseconds after the reading: more than 1 s and at most
  2 s, and 2 s only for a reading on a whole second. An idle pass whose wait times out
  returns and the loop goes on with the next pass; when the destructor has requested the
  cancellation in between, that next pass ends the thread.
\<close>

theorem wait_deadline:
  assumes "\<not> cancelPending d"
    and "0 \<le> tv_usec (clock e (ticks d))" and "tv_usec (clock e (ticks d)) < 1000000"
  shows "take (Suc (length (trace d))) (trace (finalState (loopBody e arrivals res d)))
           = trace d @ [CondTimedWait (workerHoldsMutex d) (waitDeadline (clock e (ticks d)))]
     \<and> nanosUntil (clock e (ticks d)) (waitDeadline (clock e (ticks d)))
           = 2000000000 - 1000 * tv_usec (clock e (ticks d))
     \<and> 1000000000 < nanosUntil (clock e (ticks d)) (waitDeadline (clock e (ticks d)))
     \<and> nanosUntil (clock e (ticks d)) (waitDeadline (clock e (ticks d))) \<le> 2000000000
     \<and> loopBody e [] ETIMEDOUT d = Inr (timedOut e d)
     \<and> workerLoop e (([], ETIMEDOUT) # schedule) d = workerLoop e schedule (timedOut e d)
     \<and> \<not> cancelPending (timedOut e d)
     \<and> (messageQueueThread d \<longrightarrow>
          workerLoop e ((arrivals', res') # schedule') (Device_delete (timedOut e d))
            = Inl (ThreadCancelled, Device_delete (timedOut e d)))"
proof -
  have c: "cancelPending (Device_delete (timedOut e d))" if "messageQueueThread d"
    using that by (simp add: Device_delete_def timedOut_def emit_def Let_def)
  show ?thesis
    using assms loopBody_trace [OF assms(1), of e arrivals res] loopBody_timeout [OF assms(1), of e]
      loopBody_cancelled [OF c, of e arrivals' res']
    by (simp add: nanosUntil_def waitDeadline_def) (simp add: timedOut_def)
qed

text \<open>
  At the reading 100.5 s the worker waits with the deadline 102 s, which is 1.5 s after the
  reading and not 2 s; the pass returns, and the pass after the destructor ends the thread.
\<close>

theorem wait_deadline_witness:
  "loopBody env2 [] ETIMEDOUT device0
     = Inr \<lparr>packetListSize = 512, deviceClient = Some (), deviceEndpoint = Some (),
            midiPacketList = Some [], curPacket = Some 0, midiMessageQueue = [],
            messageQueueThread = True, ticks = 1, workerHoldsMutex = True,
            cancelPending = False,
            trace = [Malloc 512, MIDIClientCreate, MIDISourceCreate, PthreadCreate,
                     CondTimedWait False \<lparr>ts_sec = 102, ts_nsec = 0\<rparr>, Cout ''ETIMEDOUT'']\<rparr>
   \<and> clock env2 (ticks device0) = \<lparr>tv_sec = 100, tv_usec = 500000\<rparr>
   \<and> nanosUntil \<lparr>tv_sec = 100, tv_usec = 500000\<rparr> \<lparr>ts_sec = 102, ts_nsec = 0\<rparr> = 1500000000
   \<and> nanosUntil \<lparr>tv_sec = 100, tv_usec = 500000\<rparr> \<lparr>ts_sec = 102, ts_nsec = 0\<rparr> \<noteq> 2000000000
   \<and> workerLoop env2 [([], ETIMEDOUT), ([(5, 100)], 0)] (Device_delete (timedOut env2 device0))
       = Inl (ThreadCancelled, Device_delete (timedOut env2 device0))"
proof -
  have c: "\<not> cancelPending device0" and m: "messageQueueThread device0" by (simp_all add: device0_eq)
  have u: "0 \<le> tv_usec (clock env2 (ticks device0))" "tv_usec (clock env2 (ticks device0)) < 1000000"
    by (simp_all add: env2_def env0_def ticks_device0)
  show ?thesis
    using wait_deadline [OF c u, of "[]" ETIMEDOUT "[]" "[]" ETIMEDOUT "[([(5, 100)], 0)]"] m
    by (simp add: timedOut_def device0_eq env2_def env0_def waitDeadline_def nanosUntil_def emit_def)
qed

text \<open>
  C8, on the code. The copy loop returns the whole queue in its order and leaves the queue
  empty; on an empty queue it returns the empty batch and changes nothing. For a device with
  a ready buffer to which nothing was sent yet and whose pushes are all still queued, and
  for every run of the worker with producers pushing during its waits: the packet lists the
  driver has received are a subsequence of the control changes of the pushed updates, in the
  order of the pushes, in the state in which the run ends, however it ends. As to the lock:
  a pass that drains calls the timed wait, pops every queued update and only then unlocks;
  it never locks the mutex, so it owns the mutex during the pops only through the return of
  that wait, and the wait is entered with the mutex only when the pass before has timed out.
\<close>

theorem drain_and_order:
  "fst (copyQueue [] d) = midiMessageQueue d
   \<and> midiMessageQueue (snd (copyQueue [] d)) = []
   \<and> (midiMessageQueue d = [] \<longrightarrow> copyQueue [] d = ([], d))
   \<and> (bufferReady d \<and> received d = [] \<and> enqueued d = midiMessageQueue d \<longrightarrow>
        subseq (received (finalState (messageSendingThreadEntry e schedule d)))
          (map controlChange (enqueued (finalState (messageSendingThreadEntry e schedule d)))))
   \<and> (\<not> cancelPending d \<and> midiMessageQueue d \<noteq> [] \<longrightarrow>
        prefix (trace d @ [CondTimedWait (workerHoldsMutex d) (waitDeadline (clock e (ticks d)))]
                 @ replicate (length (midiMessageQueue d)) (QueuePop True) @ [WorkerUnlock True])
          (trace (finalState (loopBody e [] 0 d))))"
proof -
  have "subseq (received (finalState (messageSendingThreadEntry e schedule d)))
          (map controlChange (enqueued (finalState (messageSendingThreadEntry e schedule d))))"
    if "bufferReady d" "received d = []" "enqueued d = midiMessageQueue d"
  proof -
    have "tracked d" using that by (simp add: tracked_def)
    then have "tracked (emit (Cout ''messageSendingThreadEntry'') d)"
      by (simp add: tracked_emit)
    then have "tracked (finalState (messageSendingThreadEntry e schedule d))"
      unfolding messageSendingThreadEntry_def by (rule tracked_workerLoop)
    then show ?thesis by (rule tracked_subseq)
  qed
  moreover have "copyQueue [] d = ([], d)" if "midiMessageQueue d = []"
    using that by (simp add: copyQueue_eq)
  moreover have "prefix (trace d @ [CondTimedWait (workerHoldsMutex d) (waitDeadline (clock e (ticks d)))]
                 @ replicate (length (midiMessageQueue d)) (QueuePop True) @ [WorkerUnlock True])
          (trace (finalState (loopBody e [] 0 d)))"
    if "\<not> cancelPending d" "midiMessageQueue d \<noteq> []"
    unfolding draining_pass [OF that]
    using trace_writeControlMessages [of "d\<lparr>ticks := Suc (ticks d), midiMessageQueue := [],
              trace := trace d @ [CondTimedWait (workerHoldsMutex d) (waitDeadline (clock e (ticks d)))]
                @ replicate (length (midiMessageQueue d)) (QueuePop True) @ [WorkerUnlock True],
              workerHoldsMutex := False\<rparr>" e "midiMessageQueue d"]
    by simp
  ultimately show ?thesis by simp
qed

text \<open>
  The first pass of the worker on a device with two queued updates: the wait is entered
  without the mutex, and both pops follow it.
\<close>

theorem drain_and_order_witness:
  "fst (copyQueue [] queued0) = midiMessageQueue queued0
   \<and> map (\<lambda>m. (control_index m, control_value m)) (midiMessageQueue queued0) = [(5, 100), (6, 3)]
   \<and> trace (finalState (loopBody env1 [] 0 queued0))
       = trace queued0
         @ [CondTimedWait False \<lparr>ts_sec = 3, ts_nsec = 0\<rparr>, QueuePop True, QueuePop True,
            WorkerUnlock True, MIDIReceived [\<lparr>timeStamp = 0, pdata = [0xB0, 5, 100]\<rparr>],
            Free, Malloc 512, MIDIReceived [\<lparr>timeStamp = 0, pdata = [0xB0, 6, 3]\<rparr>],
            Free, Malloc 512]
   \<and> received (finalState (messageSendingThreadEntry env1 schedule0 device0))
     = [[\<lparr>timeStamp = 0, pdata = [0xB0, 5, 100]\<rparr>], [\<lparr>timeStamp = 0, pdata = [0xB0, 5, 64]\<rparr>]]
   \<and> map (\<lambda>m. (control_index m, control_value m))
        (enqueued (finalState (messageSendingThreadEntry env1 schedule0 device0)))
     = [(5, 100), (6, 3), (5, 64)]
   \<and> subseq (received (finalState (messageSendingThreadEntry env1 schedule0 device0)))
        (map controlChange (enqueued (finalState (messageSendingThreadEntry env1 schedule0 device0))))"
proof -
  have t: "trace (finalState (loopBody env1 [] 0 queued0))
       = trace queued0
         @ [CondTimedWait False \<lparr>ts_sec = 3, ts_nsec = 0\<rparr>, QueuePop True, QueuePop True,
            WorkerUnlock True, MIDIReceived [\<lparr>timeStamp = 0, pdata = [0xB0, 5, 100]\<rparr>],
            Free, Malloc 512, MIDIReceived [\<lparr>timeStamp = 0, pdata = [0xB0, 6, 3]\<rparr>],
            Free, Malloc 512]"
    and q: "map (\<lambda>m. (control_index m, control_value m)) (midiMessageQueue queued0) = [(5, 100), (6, 3)]"
    by (simp_all add: queued0_def loopBody_cases device0_eq env1_def env0_def
        pthread_cond_timedwait_def addControlMessage_def gettimeofday_eq copyQueue_eq unlock_eq
        writeControl_def MIDIPacketListAdd_def listBytes_def send_def initPacketList_def
        MIDIPacketListInit_def waitDeadline_def elapsedTime_def emit_def Let_def ETIMEDOUT_def)
  show ?thesis
    using drain_and_order [of queued0 env1 schedule0]
      drain_and_order [of device0 env1 schedule0]
      run0 bufferReady_device0 received_device0 enqueued_device0 queue_device0 t q
    by simp
qed

text \<open>
  C9. \<^verbatim>\<open>writeControl\<close> ends in the failed assertion, with the device untouched and
  nothing handed to the driver, exactly when the index is 120 or more or the value is 128 or
  more; it never ends in a failed assertion when both are in range. Indices and values are
  unsigned, so the lower bounds hold by their type. For an index and a value in range the
  call goes on to the encode: with a ready buffer it adds the packet, hands it to the driver
  and resets the buffer; with any allocated buffer it either hands a packet list to the
  driver or ends in the exit of the buffer overrun.
\<close>

theorem writeControl_assertions:
  "(writeControl e control val d = Inl (AssertionFailed, d)) = (120 \<le> control \<or> 128 \<le> val)
   \<and> (\<forall>d'. writeControl e control val d \<noteq> Inl (AssertionFailed, d'))
       = (0 \<le> control \<and> control < 120 \<and> 0 \<le> val \<and> val < 128)
   \<and> (control < 120 \<and> val < 128 \<and> bufferReady d \<longrightarrow>
        writeControl e control val d
          = Inr (snd (send e [\<lparr>timeStamp = 0, pdata = [0xB0, 0x00 + of_nat control, of_nat val]\<rparr>]
                   (d\<lparr>midiPacketList :=
                        Some [\<lparr>timeStamp = 0, pdata = [0xB0, 0x00 + of_nat control, of_nat val]\<rparr>],
                      curPacket := Some 0\<rparr>)))
        \<and> trace (finalState (writeControl e control val d))
          = trace d @ [MIDIReceived [\<lparr>timeStamp = 0, pdata = [0xB0, 0x00 + of_nat control, of_nat val]\<rparr>],
                       Free, Malloc (packetListSize d)])
   \<and> (control < 120 \<and> val < 128 \<and> midiPacketList d = Some pktlist \<and> curPacket d = Some cur \<longrightarrow>
        (\<exists>d'. writeControl e control val d = Inr d'
              \<and> length (received d') = Suc (length (received d)))
        \<or> (\<exists>d'. writeControl e control val d = Inl (Exit1, d') \<and> cerr d' = cerr d @ [BufferOverrun]))"
proof -
  have a: "(writeControl e control val d = Inl (AssertionFailed, d)) = (120 \<le> control \<or> 128 \<le> val)"
    and b: "(\<forall>d'. writeControl e control val d \<noteq> Inl (AssertionFailed, d'))
       = (0 \<le> control \<and> control < 120 \<and> 0 \<le> val \<and> val < 128)"
    by (auto simp: writeControl_def Let_def split: option.splits prod.splits)
  have c: "writeControl e control val d
          = Inr (snd (send e [\<lparr>timeStamp = 0, pdata = [0xB0, 0x00 + of_nat control, of_nat val]\<rparr>]
                   (d\<lparr>midiPacketList :=
                        Some [\<lparr>timeStamp = 0, pdata = [0xB0, 0x00 + of_nat control, of_nat val]\<rparr>],
                      curPacket := Some 0\<rparr>)))"
    if "control < 120" "val < 128" "bufferReady d"
    using writeControl_ready [OF that(3) that(1), of val e] that(2) by simp
  have t: "trace (finalState (writeControl e control val d))
          = trace d @ [MIDIReceived [\<lparr>timeStamp = 0, pdata = [0xB0, 0x00 + of_nat control, of_nat val]\<rparr>],
                       Free, Malloc (packetListSize d)]"
    if "control < 120" "val < 128" "bufferReady d"
    unfolding c [OF that] by (simp add: send_def initPacketList_def Let_def)
  have g: "(\<exists>d'. writeControl e control val d = Inr d'
              \<and> length (received d') = Suc (length (received d)))
        \<or> (\<exists>d'. writeControl e control val d = Inl (Exit1, d') \<and> cerr d' = cerr d @ [BufferOverrun])"
    if "control < 120" "val < 128" "midiPacketList d = Some pktlist" "curPacket d = Some cur"
    using that by (simp add: writeControl_def Let_def MIDIPacketListAdd_def cerr_emit)
  show ?thesis using a b c t g by blast
qed

theorem writeControl_assertions_witness:
  "writeControl env0 5 100 device0
     = Inr (device0\<lparr>trace := trace device0
              @ [MIDIReceived [\<lparr>timeStamp = 0, pdata = [0xB0, 5, 100]\<rparr>], Free, Malloc 512]\<rparr>)
   \<and> writeControl env0 120 100 device0 = Inl (AssertionFailed, device0)
   \<and> writeControl env0 5 128 device0 = Inl (AssertionFailed, device0)"
  using writeControl_assertions [of env0 5 100 device0 "[]" 0]
    writeControl_assertions [of env0 120 100 device0]
    writeControl_assertions [of env0 5 128 device0] bufferReady_device0
  by (simp add: send_def initPacketList_def emit_def Let_def MIDIPacketListInit_def device0_eq)

text \<open>
  C10. Whatever packet list \<^verbatim>\<open>Device::send\<close> is given and whatever the member buffer
  holds, the call hands the given list to the driver, frees the member buffer when there is
  one, allocates it anew and sets the cursor to its first packet. \<^verbatim>\<open>sendNote\<close> sends a
  list of its own this way: afterwards the member buffer is empty, the driver has received
  the two notes and nothing of what the member buffer held, and nothing was written to
  \<^verbatim>\<open>std::cerr\<close>.
\<close>

theorem send_resets_member_buffer:
  "midiPacketList (snd (send e pktlist d)) = Some []
   \<and> curPacket (snd (send e pktlist d)) = Some 0
   \<and> trace (snd (send e pktlist d))
       = trace d @ [MIDIReceived pktlist] @ (if midiPacketList d \<noteq> None then [Free] else [])
           @ [Malloc (packetListSize d)]
   \<and> midiPacketList (sendNote e rnd now d) = Some []
   \<and> curPacket (sendNote e rnd now d) = Some 0
   \<and> received (sendNote e rnd now d)
       = received d @ [[\<lparr>timeStamp = 0, pdata = [0x90, of_nat (rnd mod 40 + 25), 64]\<rparr>,
                        \<lparr>timeStamp = now + 1000, pdata = [0x90, of_nat (rnd mod 40 + 25), 0]\<rparr>]]
   \<and> cerr (sendNote e rnd now d) = cerr d"
  by (simp add: sendNote_def MIDIPacketListInit_def MIDIPacketListAdd_def listBytes_def
      packetBytes_def Let_def)
    (simp add: send_def initPacketList_def Let_def MIDIPacketListInit_def)

end
